theory Spec2Isabelle
  imports Main
begin

section \<open>Values of the host runtime\<close>

text \<open>
  The packages the configuration code imports are opaque here: a peer identifier is a
  string (as \<^verbatim>\<open>peer.ID\<close> is), keys, the network handle, the private-network
  protector and the address filters are named by strings.  A host offers \<^verbatim>\<open>ID()\<close>,
  \<^verbatim>\<open>Network()\<close> and \<^verbatim>\<open>Peerstore()\<close>; a peerstore offers \<^verbatim>\<open>PrivKey(id)\<close> and
  \<^verbatim>\<open>PubKey(id)\<close>.
\<close>

type_synonym peer_id = string
type_synonym priv_key = string
type_synonym pub_key = string
type_synonym network = string
type_synonym protector = string
type_synonym filters = string

record peerstore =
  PrivKey :: "peer_id \<Rightarrow> priv_key"
  PubKey :: "peer_id \<Rightarrow> pub_key"

record host =
  ID :: peer_id
  Network :: network
  Peerstore :: peerstore

text \<open>
  A Go \<^verbatim>\<open>error\<close> value is its message.  A call returning \<^verbatim>\<open>(T, error)\<close> ends in one of
  three ways: it panics, it returns a non-nil error, or it returns a value and a nil error.
\<close>

type_synonym error = string

datatype 'a result = Panic | Err error | Ok 'a

section \<open>Components\<close>

text \<open>
  The values behind the three component interfaces, by their dynamic type.  The two
  multistream dispatchers (\<^verbatim>\<open>*csms.SSMuxer\<close> and the blank transport of
  \<^verbatim>\<open>go-smux-multistream\<close>) are used by the configuration code through \<^verbatim>\<open>AddTransport\<close>
  only, so a dispatcher is the list of its registrations, oldest first.
\<close>

datatype sec_transport =
    InsecureTransport peer_id
  | SecioTransport peer_id priv_key
  | SSMuxer "(string \<times> sec_transport) list"
  | OtherSec string

datatype mux_transport =
    YamuxDefaultTransport
  | MplexDefaultTransport
  | MsMuxTransport "(string \<times> mux_transport) list"
  | OtherMux string

record upgrader =
  Secure :: sec_transport
  Muxer :: mux_transport
  Protector :: protector
  Filters :: filters

datatype transport =
    TCPTransport upgrader
  | WSTransport upgrader
  | OtherTransport string

definition AddTransport :: "(string \<times> 'c) list \<Rightarrow> string \<Rightarrow> 'c \<Rightarrow> (string \<times> 'c) list" where
  "AddTransport m path t = m @ [(path, t)]"

fun sec_keys :: "sec_transport \<Rightarrow> string set" where
  "sec_keys (SSMuxer m) = fst ` set m"
| "sec_keys _ = {}"

fun mux_keys :: "mux_transport \<Rightarrow> string set" where
  "mux_keys (MsMuxTransport m) = fst ` set m"
| "mux_keys _ = {}"

text \<open>The protocol identifiers the secio and insecure packages export.\<close>

definition secio_ID :: string where
  "secio_ID = ''/secio/1.0.0''"

definition insecure_ID :: string where
  "insecure_ID = ''/plaintext/1.0.0''"

section \<open>Deferred factories\<close>

text \<open>
  \<^verbatim>\<open>TptC\<close>, \<^verbatim>\<open>SecC\<close> and \<^verbatim>\<open>MuxC\<close> are Go functions, and a Go function may do more
  than return: everything a factory can change is a world \<open>'w\<close>, which a factory
  receives and returns.  The aggregators thread the world through their calls in the
  order in which the source makes them.
\<close>

type_synonym 'w TptC = "host \<Rightarrow> upgrader \<Rightarrow> 'w \<Rightarrow> transport result \<times> 'w"
type_synonym 'w SecC = "host \<Rightarrow> 'w \<Rightarrow> sec_transport result \<times> 'w"
type_synonym 'w MuxC = "host \<Rightarrow> 'w \<Rightarrow> mux_transport result \<times> 'w"

datatype 'w MsSecC = MsSecC "'w SecC" string

datatype 'w MsMuxC = MsMuxC "'w MuxC" string

fun sec_id :: "'w MsSecC \<Rightarrow> string" where
  "sec_id (MsSecC secC i) = i"

section \<open>makeTransports\<close>

text \<open>
  The loop of \<^verbatim>\<open>makeTransports\<close>: \<open>transports\<close> holds the results stored so far, the
  list argument the constructors still to call.
\<close>

fun makeTransports_loop ::
  "host \<Rightarrow> upgrader \<Rightarrow> 'w TptC list \<Rightarrow> transport list \<Rightarrow> 'w \<Rightarrow> transport list result \<times> 'w" where
  "makeTransports_loop h u [] transports w = (Ok transports, w)"
| "makeTransports_loop h u (tC # rest) transports w =
     (case tC h u w of
        (Panic, w') \<Rightarrow> (Panic, w')
      | (Err err, w') \<Rightarrow> (Err err, w')
      | (Ok t, w') \<Rightarrow> makeTransports_loop h u rest (transports @ [t]) w')"

definition makeTransports ::
  "host \<Rightarrow> upgrader \<Rightarrow> 'w TptC list \<Rightarrow> 'w \<Rightarrow> transport list result \<times> 'w" where
  "makeTransports h u tpts w =
     (if length tpts > 0 then makeTransports_loop h u tpts [] w
      else (Ok [TCPTransport u, WSTransport u], w))"

section \<open>makeSecurityTransport\<close>

definition makeInsecureTransport :: "peer_id \<Rightarrow> sec_transport" where
  "makeInsecureTransport i = SSMuxer (AddTransport [] insecure_ID (InsecureTransport i))"

text \<open>
  The first loop looks every identifier up in \<open>transportSet\<close>; the source never stores
  into that map, so the loop passes it on as it is.
\<close>

fun sec_duplicate_loop :: "string set \<Rightarrow> 'w MsSecC list \<Rightarrow> error option" where
  "sec_duplicate_loop transportSet [] = None"
| "sec_duplicate_loop transportSet (MsSecC secC i # rest) =
     (if i \<in> transportSet then Some (''duplicate security transport: '' @ i)
      else sec_duplicate_loop transportSet rest)"

definition insecure_error :: error where
  "insecure_error =
     ''cannot construct libp2p with an insecure transport, set the Insecure config option instead''"

fun sec_add_loop ::
  "host \<Rightarrow> 'w MsSecC list \<Rightarrow> (string \<times> sec_transport) list \<Rightarrow> 'w \<Rightarrow> sec_transport result \<times> 'w" where
  "sec_add_loop h [] secMuxer w = (Ok (SSMuxer secMuxer), w)"
| "sec_add_loop h (MsSecC secC i # rest) secMuxer w =
     (case secC h w of
        (Panic, w') \<Rightarrow> (Panic, w')
      | (Err err, w') \<Rightarrow> (Err err, w')
      | (Ok tpt, w') \<Rightarrow>
          (case tpt of
             InsecureTransport _ \<Rightarrow> (Err insecure_error, w')
           | _ \<Rightarrow> sec_add_loop h rest (AddTransport secMuxer i tpt) w'))"

definition makeSecurityTransport ::
  "host \<Rightarrow> 'w MsSecC list \<Rightarrow> 'w \<Rightarrow> sec_transport result \<times> 'w" where
  "makeSecurityTransport h tpts w =
     (if length tpts > 0 then
        (case sec_duplicate_loop {} tpts of
           Some err \<Rightarrow> (Err err, w)
         | None \<Rightarrow> sec_add_loop h tpts [] w)
      else
        (Ok (SSMuxer (AddTransport [] secio_ID
               (SecioTransport (ID h) (PrivKey (Peerstore h) (ID h))))), w))"

section \<open>makeMuxer\<close>

fun mux_duplicate_loop :: "string set \<Rightarrow> 'w MsMuxC list \<Rightarrow> error option" where
  "mux_duplicate_loop transportSet [] = None"
| "mux_duplicate_loop transportSet (MsMuxC muxC i # rest) =
     (if i \<in> transportSet then Some (''duplicate muxer transport: '' @ i)
      else mux_duplicate_loop transportSet rest)"

fun mux_add_loop ::
  "host \<Rightarrow> 'w MsMuxC list \<Rightarrow> (string \<times> mux_transport) list \<Rightarrow> 'w \<Rightarrow> mux_transport result \<times> 'w" where
  "mux_add_loop h [] muxMuxer w = (Ok (MsMuxTransport muxMuxer), w)"
| "mux_add_loop h (MsMuxC muxC i # rest) muxMuxer w =
     (case muxC h w of
        (Panic, w') \<Rightarrow> (Panic, w')
      | (Err err, w') \<Rightarrow> (Err err, w')
      | (Ok tpt, w') \<Rightarrow> mux_add_loop h rest (AddTransport muxMuxer i tpt) w')"

text \<open>The branch condition is \<^verbatim>\<open>len(tpts) == 0\<close>, as the source has it.\<close>

definition makeMuxer ::
  "host \<Rightarrow> 'w MsMuxC list \<Rightarrow> 'w \<Rightarrow> mux_transport result \<times> 'w" where
  "makeMuxer h tpts w =
     (if length tpts = 0 then
        (case mux_duplicate_loop {} tpts of
           Some err \<Rightarrow> (Err err, w)
         | None \<Rightarrow> mux_add_loop h tpts [] w)
      else
        (Ok (MsMuxTransport
               (AddTransport (AddTransport [] ''/yamux/1.0.0'' YamuxDefaultTransport)
                  ''/mplex/6.3.0'' MplexDefaultTransport)), w))"

section \<open>Reflection\<close>

text \<open>
  What the constructors ask of package \<^verbatim>\<open>reflect\<close>.  A Go type is an interface type or
  a type of another kind, with its name.  A \<^verbatim>\<open>reflect.Type\<close> is such a type or nil.
\<close>

datatype gotype = Interface string | Concrete string

type_synonym rtype = "gotype option"

fun Name :: "gotype \<Rightarrow> string" where
  "Name (Interface n) = n"
| "Name (Concrete n) = n"

text \<open>
  \<^verbatim>\<open>T.Implements(U)\<close>: a nil receiver is a nil dereference, and \<^verbatim>\<open>reflect\<close> panics on
  a nil \<open>U\<close> and on a \<open>U\<close> that is not an interface type; \<open>None\<close> is the panic.  An
  interface type implements itself.  Which other types implement which interfaces is
  decided by method sets declared outside this repository: the parameter \<open>impl\<close>.
\<close>

definition Implements :: "(gotype \<Rightarrow> gotype \<Rightarrow> bool) \<Rightarrow> rtype \<Rightarrow> rtype \<Rightarrow> bool option" where
  "Implements impl T U =
     (case T of
        None \<Rightarrow> None
      | Some t \<Rightarrow>
          (case U of
             None \<Rightarrow> None
           | Some (Concrete _) \<Rightarrow> None
           | Some (Interface n) \<Rightarrow> Some (t = Interface n \<or> impl t (Interface n))))"

text \<open>
  The type descriptors of \<^verbatim>\<open>reflect_types.go\<close>, and \<^verbatim>\<open>transportType\<close> of
  \<^verbatim>\<open>transport.go\<close>.  The constructors read them as package variables; here they are a
  record the constructors receive.
\<close>

record reflect_types =
  errorType :: rtype
  upgraderType :: rtype
  hostType :: rtype
  networkType :: rtype
  muxType :: rtype
  securityType :: rtype
  protectorType :: rtype
  filtersType :: rtype
  peerIDType :: rtype
  privKeyType :: rtype
  pubKeyType :: rtype
  pstoreType :: rtype
  transportType :: rtype

text \<open>
  Every descriptor is written \<^verbatim>\<open>reflect.TypeOf((T)(nil))\<close> (\<^verbatim>\<open>(peer.ID)("")\<close> for the
  peer identifier).  \<^verbatim>\<open>reflect.TypeOf\<close> returns the dynamic type of its argument, and
  nil for a nil interface value: the zero value of an interface type has no dynamic type,
  the zero value of any other type has that type.
\<close>

fun TypeOf_zero :: "gotype \<Rightarrow> rtype" where
  "TypeOf_zero (Interface n) = None"
| "TypeOf_zero (Concrete n) = Some (Concrete n)"

definition source_types :: reflect_types where
  "source_types =
     \<lparr> errorType = TypeOf_zero (Interface ''error''),
       upgraderType = TypeOf_zero (Concrete ''*tptu.Upgrader''),
       hostType = TypeOf_zero (Interface ''host.Host''),
       networkType = TypeOf_zero (Interface ''inet.Network''),
       muxType = TypeOf_zero (Interface ''mux.Transport''),
       securityType = TypeOf_zero (Interface ''security.Transport''),
       protectorType = TypeOf_zero (Interface ''pnet.Protector''),
       filtersType = TypeOf_zero (Concrete ''*filter.Filters''),
       peerIDType = TypeOf_zero (Concrete ''peer.ID''),
       privKeyType = TypeOf_zero (Interface ''crypto.PrivKey''),
       pubKeyType = TypeOf_zero (Interface ''crypto.PubKey''),
       pstoreType = TypeOf_zero (Interface ''pstore.Peerstore''),
       transportType = TypeOf_zero (Interface ''transport.Transport'') \<rparr>"

text \<open>
  The table in which every variable holds the type its declaration names, interface
  types included.  The constructors take the table as an argument, and their properties
  below are given for both tables.
\<close>

definition named_types :: reflect_types where
  "named_types =
     \<lparr> errorType = Some (Interface ''error''),
       upgraderType = Some (Concrete ''*tptu.Upgrader''),
       hostType = Some (Interface ''host.Host''),
       networkType = Some (Interface ''inet.Network''),
       muxType = Some (Interface ''mux.Transport''),
       securityType = Some (Interface ''security.Transport''),
       protectorType = Some (Interface ''pnet.Protector''),
       filtersType = Some (Concrete ''*filter.Filters''),
       peerIDType = Some (Concrete ''peer.ID''),
       privKeyType = Some (Interface ''crypto.PrivKey''),
       pubKeyType = Some (Interface ''crypto.PubKey''),
       pstoreType = Some (Interface ''pstore.Peerstore''),
       transportType = Some (Interface ''transport.Transport'') \<rparr>"

text \<open>
  The values reflection handles: what a palette entry extracts from the host context and
  what a user function returns.  \<open>VNil\<close> is the nil interface value.
\<close>

datatype val =
    VUpgrader upgrader
  | VHost host
  | VNetwork network
  | VMux mux_transport
  | VSec sec_transport
  | VProtector protector
  | VFilters filters
  | VPeerID peer_id
  | VPrivKey priv_key
  | VPubKey pub_key
  | VPeerstore peerstore
  | VTransport transport
  | VError error
  | VNil
  | VOther string

text \<open>
  What a caller hands to a constructor as \<^verbatim>\<open>interface{}\<close>: a value, or a function with
  its declared parameter types, its declared result types and its body.
\<close>

datatype 'w descriptor =
    Value val
  | Func "gotype list" "gotype list" "val list \<Rightarrow> 'w \<Rightarrow> val list \<times> 'w"

text \<open>The three palettes, in the order of the source.\<close>

definition transportArgTypes :: "reflect_types \<Rightarrow> (rtype \<times> (host \<times> upgrader \<Rightarrow> val)) list" where
  "transportArgTypes rt =
     [ (upgraderType rt, \<lambda>(h, u). VUpgrader u),
       (hostType rt, \<lambda>(h, u). VHost h),
       (networkType rt, \<lambda>(h, u). VNetwork (Network h)),
       (muxType rt, \<lambda>(h, u). VMux (Muxer u)),
       (securityType rt, \<lambda>(h, u). VSec (Secure u)),
       (protectorType rt, \<lambda>(h, u). VProtector (Protector u)),
       (filtersType rt, \<lambda>(h, u). VFilters (Filters u)),
       (peerIDType rt, \<lambda>(h, u). VPeerID (ID h)),
       (privKeyType rt, \<lambda>(h, u). VPrivKey (PrivKey (Peerstore h) (ID h))),
       (pubKeyType rt, \<lambda>(h, u). VPubKey (PubKey (Peerstore h) (ID h))),
       (pstoreType rt, \<lambda>(h, u). VPeerstore (Peerstore h)) ]"

definition securityArgTypes :: "reflect_types \<Rightarrow> (rtype \<times> (host \<Rightarrow> val)) list" where
  "securityArgTypes rt =
     [ (hostType rt, \<lambda>h. VHost h),
       (networkType rt, \<lambda>h. VNetwork (Network h)),
       (peerIDType rt, \<lambda>h. VPeerID (ID h)),
       (privKeyType rt, \<lambda>h. VPrivKey (PrivKey (Peerstore h) (ID h))),
       (pubKeyType rt, \<lambda>h. VPubKey (PubKey (Peerstore h) (ID h))),
       (pstoreType rt, \<lambda>h. VPeerstore (Peerstore h)) ]"

definition muxArgTypes :: "reflect_types \<Rightarrow> (rtype \<times> (host \<Rightarrow> val)) list" where
  "muxArgTypes rt =
     [ (hostType rt, \<lambda>h. VHost h),
       (networkType rt, \<lambda>h. VNetwork (Network h)),
       (peerIDType rt, \<lambda>h. VPeerID (ID h)),
       (pstoreType rt, \<lambda>h. VPeerstore (Peerstore h)) ]"

section \<open>The constructors\<close>

text \<open>
  The three constructors share their text but for the palette and the interface asserted
  at the end; the shared parts are the definitions below, in the order of the source.

  First the switch on \<^verbatim>\<open>t.NumOut()\<close>.  All three constructors compare the first result
  with \<^verbatim>\<open>transportType\<close>, the variable \<^verbatim>\<open>transport.go\<close> declares.
\<close>

definition first_out_check :: "(gotype \<Rightarrow> gotype \<Rightarrow> bool) \<Rightarrow> reflect_types \<Rightarrow> gotype list \<Rightarrow> unit result" where
  "first_out_check impl rt outs =
     (case Implements impl (Some (outs ! 0)) (transportType rt) of
        None \<Rightarrow> Panic
      | Some False \<Rightarrow>
          Err ''expected first return value from transport constructor to be a transport''
      | Some True \<Rightarrow> Ok ())"

definition NumOut_switch :: "(gotype \<Rightarrow> gotype \<Rightarrow> bool) \<Rightarrow> reflect_types \<Rightarrow> gotype list \<Rightarrow> unit result" where
  "NumOut_switch impl rt outs =
     (if length outs = 2 then
        (if Some (outs ! 1) \<noteq> errorType rt then
           Err ''expected (optional) second return value from transport constructor to be an error''
         else first_out_check impl rt outs)
      else if length outs = 1 then first_out_check impl rt outs
      else
        Err ''expected transport constructor to return a transport and, optionally, an error'')"

text \<open>\<^verbatim>\<open>%d\<close> of a position.\<close>

fun fmt_d :: "nat \<Rightarrow> string" where
  "fmt_d n =
     (if n < 10 then [''0123456789'' ! n]
      else fmt_d (n div 10) @ [''0123456789'' ! (n mod 10)])"

declare fmt_d.simps [simp del]

text \<open>
  The inner loop over a palette: the constructor of the first entry whose type implements
  \<open>argType\<close>.  \<open>None\<close> is a panic of \<^verbatim>\<open>Implements\<close>, \<open>Some None\<close> a palette with no such
  entry.
\<close>

fun palette_loop ::
  "(gotype \<Rightarrow> gotype \<Rightarrow> bool) \<Rightarrow> (rtype \<times> 'n) list \<Rightarrow> gotype \<Rightarrow> 'n option option" where
  "palette_loop impl [] argType = Some None"
| "palette_loop impl ((T, New) # rest) argType =
     (case Implements impl T (Some argType) of
        None \<Rightarrow> None
      | Some True \<Rightarrow> Some (Some New)
      | Some False \<Rightarrow> palette_loop impl rest argType)"

text \<open>
  The loop labelled \<^verbatim>\<open>outer\<close>, entered at index \<open>i\<close>.  Its body leaves the loop on every
  path: \<^verbatim>\<open>break outer\<close> after storing the constructor found, and \<^verbatim>\<open>return\<close> when the
  palette has none.  A slot never stored into stays nil, which is \<open>None\<close>.
\<close>

definition outer_loop ::
  "(gotype \<Rightarrow> gotype \<Rightarrow> bool) \<Rightarrow> (rtype \<times> 'n) list \<Rightarrow> gotype list \<Rightarrow> 'n option list \<Rightarrow> nat
     \<Rightarrow> 'n option list result" where
  "outer_loop impl palette ins argConstructors i =
     (if i < length ins then
        (case palette_loop impl palette (ins ! i) of
           None \<Rightarrow> Panic
         | Some (Some New) \<Rightarrow> Ok (argConstructors[i := Some New])
         | Some None \<Rightarrow>
             Err (''argument '' @ fmt_d i @ '' of transport constructor has an unexpected type ''
                  @ Name (ins ! i)))
      else Ok argConstructors)"

definition resolve_arguments ::
  "(gotype \<Rightarrow> gotype \<Rightarrow> bool) \<Rightarrow> (rtype \<times> 'n) list \<Rightarrow> gotype list \<Rightarrow> 'n option list result" where
  "resolve_arguments impl palette ins =
     outer_loop impl palette ins (replicate (length ins) None) 0"

text \<open>
  The returned closure.  Its first loop calls every argument constructor in order;
  calling a nil one panics.  Then the user function runs, and its results are read.
\<close>

fun make_arguments :: "('x \<Rightarrow> val) option list \<Rightarrow> 'x \<Rightarrow> val list option" where
  "make_arguments [] x = Some []"
| "make_arguments (None # rest) x = None"
| "make_arguments (Some makeArg # rest) x =
     (case make_arguments rest x of
        None \<Rightarrow> None
      | Some arguments \<Rightarrow> Some (makeArg x # arguments))"

definition first_out :: "(val \<Rightarrow> 'c option) \<Rightarrow> val list \<Rightarrow> 'c result" where
  "first_out assert out =
     (case assert (out ! 0) of
        None \<Rightarrow> Panic
      | Some tpt \<Rightarrow> Ok tpt)"

definition read_out :: "(val \<Rightarrow> 'c option) \<Rightarrow> val list \<Rightarrow> 'c result" where
  "read_out assert out =
     (if length out = 2 then
        (case out ! 1 of
           VNil \<Rightarrow> first_out assert out
         | VError err \<Rightarrow> Err err
         | _ \<Rightarrow> Panic)
      else if length out = 1 then first_out assert out
      else Panic)"

definition closure ::
  "(val \<Rightarrow> 'c option) \<Rightarrow> ('x \<Rightarrow> val) option list \<Rightarrow> (val list \<Rightarrow> 'w \<Rightarrow> val list \<times> 'w)
     \<Rightarrow> 'x \<Rightarrow> 'w \<Rightarrow> 'c result \<times> 'w" where
  "closure assert argConstructors v x w =
     (case make_arguments argConstructors x of
        None \<Rightarrow> (Panic, w)
      | Some arguments \<Rightarrow>
          (case v arguments w of
             (out, w') \<Rightarrow> (read_out assert out, w')))"

text \<open>The type assertions \<^verbatim>\<open>x.(transport.Transport)\<close> and its two siblings.\<close>

fun as_transport :: "val \<Rightarrow> transport option" where
  "as_transport (VTransport t) = Some t"
| "as_transport _ = None"

fun as_security :: "val \<Rightarrow> sec_transport option" where
  "as_security (VSec t) = Some t"
| "as_security _ = None"

fun as_mux :: "val \<Rightarrow> mux_transport option" where
  "as_mux (VMux t) = Some t"
| "as_mux _ = None"

definition not_a_function :: error where
  "not_a_function = ''expected a transport constructor (function) or a transport''"

definition TransportConstructor ::
  "(gotype \<Rightarrow> gotype \<Rightarrow> bool) \<Rightarrow> reflect_types \<Rightarrow> 'w descriptor \<Rightarrow> 'w TptC result" where
  "TransportConstructor impl rt tpt =
     (case tpt of
        Value x \<Rightarrow>
          (case as_transport x of
             Some t \<Rightarrow> Ok (\<lambda>_ _ w. (Ok t, w))
           | None \<Rightarrow> (if x = VNil then Panic else Err not_a_function))
      | Func ins outs v \<Rightarrow>
          (case NumOut_switch impl rt outs of
             Panic \<Rightarrow> Panic
           | Err err \<Rightarrow> Err err
           | Ok _ \<Rightarrow>
               (case resolve_arguments impl (transportArgTypes rt) ins of
                  Panic \<Rightarrow> Panic
                | Err err \<Rightarrow> Err err
                | Ok argConstructors \<Rightarrow>
                    Ok (\<lambda>h u. closure as_transport argConstructors v (h, u)))))"

definition SecurityConstructor ::
  "(gotype \<Rightarrow> gotype \<Rightarrow> bool) \<Rightarrow> reflect_types \<Rightarrow> 'w descriptor \<Rightarrow> 'w SecC result" where
  "SecurityConstructor impl rt sec =
     (case sec of
        Value x \<Rightarrow>
          (case as_security x of
             Some t \<Rightarrow> Ok (\<lambda>_ w. (Ok t, w))
           | None \<Rightarrow> (if x = VNil then Panic else Err not_a_function))
      | Func ins outs v \<Rightarrow>
          (case NumOut_switch impl rt outs of
             Panic \<Rightarrow> Panic
           | Err err \<Rightarrow> Err err
           | Ok _ \<Rightarrow>
               (case resolve_arguments impl (securityArgTypes rt) ins of
                  Panic \<Rightarrow> Panic
                | Err err \<Rightarrow> Err err
                | Ok argConstructors \<Rightarrow>
                    Ok (\<lambda>h. closure as_security argConstructors v h))))"

definition MuxerConstructor ::
  "(gotype \<Rightarrow> gotype \<Rightarrow> bool) \<Rightarrow> reflect_types \<Rightarrow> 'w descriptor \<Rightarrow> 'w MuxC result" where
  "MuxerConstructor impl rt m =
     (case m of
        Value x \<Rightarrow>
          (case as_mux x of
             Some t \<Rightarrow> Ok (\<lambda>_ w. (Ok t, w))
           | None \<Rightarrow> (if x = VNil then Panic else Err not_a_function))
      | Func ins outs v \<Rightarrow>
          (case NumOut_switch impl rt outs of
             Panic \<Rightarrow> Panic
           | Err err \<Rightarrow> Err err
           | Ok _ \<Rightarrow>
               (case resolve_arguments impl (muxArgTypes rt) ins of
                  Panic \<Rightarrow> Panic
                | Err err \<Rightarrow> Err err
                | Ok argConstructors \<Rightarrow>
                    Ok (\<lambda>h. closure as_mux argConstructors v h))))"

section \<open>Calling factories in order\<close>

text \<open>
  \<open>calls fs w\<close> calls every function of \<open>fs\<close> once, from left to right, each in the
  world its predecessor left: the results in that order, and the final world.  It is the
  yardstick for "every factory is invoked once, in input order": an aggregator did so
  exactly when its results and its final world are those of \<open>calls\<close>.
\<close>

fun calls :: "('w \<Rightarrow> 'r \<times> 'w) list \<Rightarrow> 'w \<Rightarrow> 'r list \<times> 'w" where
  "calls [] w = ([], w)"
| "calls (f # fs) w =
     (case f w of
        (r, w') \<Rightarrow> (case calls fs w' of (rs, w'') \<Rightarrow> (r # rs, w'')))"

text \<open>A transport constructor, and the constructor of a keyed entry, called on the host context.\<close>

definition tpt_call :: "host \<Rightarrow> upgrader \<Rightarrow> 'w TptC \<Rightarrow> 'w \<Rightarrow> transport result \<times> 'w" where
  "tpt_call h u tC w = tC h u w"

fun sec_call :: "host \<Rightarrow> 'w MsSecC \<Rightarrow> 'w \<Rightarrow> sec_transport result \<times> 'w" where
  "sec_call h (MsSecC secC i) = secC h"

text \<open>The type assertion \<^verbatim>\<open>tpt.(*insecure.Transport)\<close> of \<^verbatim>\<open>makeSecurityTransport\<close>.\<close>

fun is_insecure :: "sec_transport \<Rightarrow> bool" where
  "is_insecure (InsecureTransport _) = True"
| "is_insecure _ = False"

text \<open>
  The method sets of the examples below: no type implements an interface other than
  itself.  That is so for every pair of types the examples make the constructors compare
  (\<^verbatim>\<open>*tptu.Upgrader\<close> does not implement \<^verbatim>\<open>host.Host\<close>, and neither \<^verbatim>\<open>mux.Transport\<close>
  nor \<^verbatim>\<open>security.Transport\<close> implements \<^verbatim>\<open>transport.Transport\<close>).
\<close>

definition self_only :: "gotype \<Rightarrow> gotype \<Rightarrow> bool" where
  "self_only T U = False"

text \<open>A host context and an upgrader for the examples.\<close>

definition example_host :: host where
  "example_host =
     \<lparr> ID = ''QmHost'', Network = ''swarm'',
       Peerstore = \<lparr> PrivKey = (\<lambda>_. ''private key''), PubKey = (\<lambda>_. ''public key'') \<rparr> \<rparr>"

definition example_upgrader :: upgrader where
  "example_upgrader =
     \<lparr> Secure = SSMuxer [], Muxer = MsMuxTransport [], Protector = ''no protector'',
       Filters = ''no filters'' \<rparr>"

section \<open>The loops of the aggregators\<close>

lemma sec_duplicate_loop_empty: "sec_duplicate_loop {} tpts = None"
proof (induction tpts)
  case Nil
  show ?case by simp
next
  case (Cons c rest)
  then show ?case by (cases c) simp
qed

lemma makeMuxer_any:
  "makeMuxer h tpts w =
     (Ok (MsMuxTransport (if tpts = [] then []
            else [(''/yamux/1.0.0'', YamuxDefaultTransport), (''/mplex/6.3.0'', MplexDefaultTransport)])), w)"
  by (simp add: makeMuxer_def AddTransport_def)

lemma makeTransports_loop_all_ok:
  "fst (calls (map (tpt_call h u) tpts) w) = map Ok ts \<Longrightarrow>
   makeTransports_loop h u tpts acc w = (Ok (acc @ ts), snd (calls (map (tpt_call h u) tpts) w))"
proof (induction tpts arbitrary: acc w ts)
  case Nil
  then show ?case by simp
next
  case (Cons tC rest)
  obtain r w' where f: "tpt_call h u tC w = (r, w')" by (cases "tpt_call h u tC w")
  then have f': "tC h u w = (r, w')" by (simp add: tpt_call_def)
  obtain rs w'' where c: "calls (map (tpt_call h u) rest) w' = (rs, w'')"
    by (cases "calls (map (tpt_call h u) rest) w'")
  from Cons.prems f c obtain t ts' where ts: "ts = t # ts'" "r = Ok t" "rs = map Ok ts'"
    by (cases ts) auto
  from Cons.IH[of w' ts' "acc @ [t]"] c ts
  have "makeTransports_loop h u rest (acc @ [t]) w' = (Ok (acc @ t # ts'), w'')" by simp
  with f f' c ts show ?case by simp
qed

lemma makeTransports_loop_first_error:
  "fst (calls (map (tpt_call h u) pre) w) = map Ok ts \<Longrightarrow>
   fst (tpt_call h u tC (snd (calls (map (tpt_call h u) pre) w))) = Err e \<Longrightarrow>
   makeTransports_loop h u (pre @ tC # post) acc w =
     (Err e, snd (tpt_call h u tC (snd (calls (map (tpt_call h u) pre) w))))"
proof (induction pre arbitrary: acc w ts)
  case Nil
  then show ?case by (cases "tC h u w") (simp add: tpt_call_def)
next
  case (Cons tC' rest)
  obtain r w' where f: "tpt_call h u tC' w = (r, w')" by (cases "tpt_call h u tC' w")
  then have f': "tC' h u w = (r, w')" by (simp add: tpt_call_def)
  obtain rs w'' where c: "calls (map (tpt_call h u) rest) w' = (rs, w'')"
    by (cases "calls (map (tpt_call h u) rest) w'")
  from Cons.prems(1) f c obtain t ts' where ts: "ts = t # ts'" "r = Ok t" "rs = map Ok ts'"
    by (cases ts) auto
  from Cons.prems(2) f c
  have e: "fst (tpt_call h u tC (snd (calls (map (tpt_call h u) rest) w'))) = Err e"
    by simp
  from Cons.IH[of w' ts' "acc @ [t]"] c ts e
  have "makeTransports_loop h u (rest @ tC # post) (acc @ [t]) w' =
          (Err e, snd (tpt_call h u tC w''))" by simp
  with f f' c ts show ?case by simp
qed

lemma sec_add_loop_all_ok:
  "fst (calls (map (sec_call h) tpts) w) = map Ok ts \<Longrightarrow>
   \<forall>t \<in> set ts. \<not> is_insecure t \<Longrightarrow>
   sec_add_loop h tpts acc w =
     (Ok (SSMuxer (acc @ zip (map sec_id tpts) ts)), snd (calls (map (sec_call h) tpts) w))"
proof (induction tpts arbitrary: acc w ts)
  case Nil
  then show ?case by simp
next
  case (Cons c rest)
  obtain secC i where c: "c = MsSecC secC i" by (cases c)
  obtain r w' where f: "secC h w = (r, w')" by (cases "secC h w")
  obtain rs w'' where cs: "calls (map (sec_call h) rest) w' = (rs, w'')"
    by (cases "calls (map (sec_call h) rest) w'")
  from Cons.prems(1) c f cs obtain t ts' where ts: "ts = t # ts'" "r = Ok t" "rs = map Ok ts'"
    by (cases ts) auto
  from Cons.prems(2) ts have t: "\<not> is_insecure t" and ts': "\<forall>t \<in> set ts'. \<not> is_insecure t" by auto
  from Cons.IH[of w' ts' "AddTransport acc i t"] cs ts ts'
  have "sec_add_loop h rest (AddTransport acc i t) w' =
          (Ok (SSMuxer (AddTransport acc i t @ zip (map sec_id rest) ts')), w'')" by simp
  with c f cs ts t show ?case by (cases t) (simp_all add: AddTransport_def)
qed

lemma sec_add_loop_first_error:
  "fst (calls (map (sec_call h) pre) w) = map Ok ts \<Longrightarrow>
   \<forall>t \<in> set ts. \<not> is_insecure t \<Longrightarrow>
   fst (sec_call h c (snd (calls (map (sec_call h) pre) w))) = Err e \<Longrightarrow>
   sec_add_loop h (pre @ c # post) acc w =
     (Err e, snd (sec_call h c (snd (calls (map (sec_call h) pre) w))))"
proof (induction pre arbitrary: acc w ts)
  case Nil
  then show ?case by (cases c; cases "sec_call h c w") simp
next
  case (Cons c' rest)
  obtain secC i where c': "c' = MsSecC secC i" by (cases c')
  obtain r w' where f: "secC h w = (r, w')" by (cases "secC h w")
  obtain rs w'' where cs: "calls (map (sec_call h) rest) w' = (rs, w'')"
    by (cases "calls (map (sec_call h) rest) w'")
  from Cons.prems(1) c' f cs obtain t ts' where ts: "ts = t # ts'" "r = Ok t" "rs = map Ok ts'"
    by (cases ts) auto
  from Cons.prems(2) ts have t: "\<not> is_insecure t" and ts': "\<forall>t \<in> set ts'. \<not> is_insecure t" by auto
  from Cons.prems(3) c' f cs have e: "fst (sec_call h c (snd (calls (map (sec_call h) rest) w'))) = Err e"
    by simp
  from Cons.IH[of w' ts' "AddTransport acc i t"] cs ts ts' e
  have "sec_add_loop h (rest @ c # post) (AddTransport acc i t) w' = (Err e, snd (sec_call h c w''))"
    by simp
  with c' f cs ts t show ?case by (cases t) simp_all
qed

lemma sec_add_loop_insecure:
  "fst (calls (map (sec_call h) pre) w) = map Ok ts \<Longrightarrow>
   \<forall>t \<in> set ts. \<not> is_insecure t \<Longrightarrow>
   fst (sec_call h c (snd (calls (map (sec_call h) pre) w))) = Ok (InsecureTransport p) \<Longrightarrow>
   sec_add_loop h (pre @ c # post) acc w =
     (Err insecure_error, snd (sec_call h c (snd (calls (map (sec_call h) pre) w))))"
proof (induction pre arbitrary: acc w ts)
  case Nil
  then show ?case by (cases c; cases "sec_call h c w") simp
next
  case (Cons c' rest)
  obtain secC i where c': "c' = MsSecC secC i" by (cases c')
  obtain r w' where f: "secC h w = (r, w')" by (cases "secC h w")
  obtain rs w'' where cs: "calls (map (sec_call h) rest) w' = (rs, w'')"
    by (cases "calls (map (sec_call h) rest) w'")
  from Cons.prems(1) c' f cs obtain t ts' where ts: "ts = t # ts'" "r = Ok t" "rs = map Ok ts'"
    by (cases ts) auto
  from Cons.prems(2) ts have t: "\<not> is_insecure t" and ts': "\<forall>t \<in> set ts'. \<not> is_insecure t" by auto
  from Cons.prems(3) c' f cs
  have e: "fst (sec_call h c (snd (calls (map (sec_call h) rest) w'))) = Ok (InsecureTransport p)"
    by simp
  from Cons.IH[of w' ts' "AddTransport acc i t"] cs ts ts' e
  have "sec_add_loop h (rest @ c # post) (AddTransport acc i t) w' =
          (Err insecure_error, snd (sec_call h c w''))"
    by simp
  with c' f cs ts t show ?case by (cases t) simp_all
qed

lemma sec_add_loop_no_insecure:
  "sec_add_loop h tpts acc w = (Ok d, w') \<Longrightarrow>
   \<exists>m. d = SSMuxer (acc @ m) \<and> map fst m = map sec_id tpts \<and> (\<forall>t \<in> snd ` set m. \<not> is_insecure t)"
proof (induction tpts arbitrary: acc w)
  case Nil
  then show ?case by auto
next
  case (Cons c rest)
  obtain secC i where c: "c = MsSecC secC i" by (cases c)
  obtain r w1 where f: "secC h w = (r, w1)" by (cases "secC h w")
  from Cons.prems c f obtain t where r: "r = Ok t" by (cases r) auto
  from Cons.prems c f r have t: "\<not> is_insecure t" by (cases t) auto
  with Cons.prems c f r have "sec_add_loop h rest (AddTransport acc i t) w1 = (Ok d, w')"
    by (cases t) auto
  from Cons.IH[OF this] obtain m where
    m: "d = SSMuxer (AddTransport acc i t @ m)" "map fst m = map sec_id rest"
       "\<forall>t \<in> snd ` set m. \<not> is_insecure t"
    by blast
  have "d = SSMuxer (acc @ (i, t) # m)" using m(1) by (simp add: AddTransport_def)
  moreover have "map fst ((i, t) # m) = map sec_id (c # rest)" using m(2) c by simp
  moreover have "\<forall>t \<in> snd ` set ((i, t) # m). \<not> is_insecure t" using m(3) t by simp
  ultimately show ?case by blast
qed

lemma makeTransports_loop_length:
  "makeTransports_loop h u tpts acc w = (Ok ts, w') \<Longrightarrow> length ts = length acc + length tpts"
proof (induction tpts arbitrary: acc w)
  case Nil
  then show ?case by auto
next
  case (Cons tC rest)
  obtain r w1 where f: "tC h u w = (r, w1)" by (cases "tC h u w")
  from Cons.prems f obtain t where r: "r = Ok t" by (cases r) auto
  with Cons.prems f have "makeTransports_loop h u rest (acc @ [t]) w1 = (Ok ts, w')" by simp
  from Cons.IH[OF this] show ?case by simp
qed

lemma makeTransports_loop_stateless:
  "\<forall>tC \<in> set tpts. \<forall>w w'. fst (tpt_call h u tC w) = fst (tpt_call h u tC w') \<Longrightarrow>
   fst (makeTransports_loop h u tpts acc w1) = fst (makeTransports_loop h u tpts acc w2)"
proof (induction tpts arbitrary: acc w1 w2)
  case Nil
  show ?case by simp
next
  case (Cons tC rest)
  obtain r1 v1 where f1: "tC h u w1 = (r1, v1)" by (cases "tC h u w1")
  obtain r2 v2 where f2: "tC h u w2 = (r2, v2)" by (cases "tC h u w2")
  from Cons.prems have "fst (tpt_call h u tC w1) = fst (tpt_call h u tC w2)" by simp
  with f1 f2 have r: "r1 = r2" by (simp add: tpt_call_def)
  from Cons.prems have
    "\<forall>tC \<in> set rest. \<forall>w w'. fst (tpt_call h u tC w) = fst (tpt_call h u tC w')" by simp
  from Cons.IH[OF this] f1 f2 r show ?case by (cases r2) simp_all
qed

lemma sec_add_loop_stateless:
  "\<forall>c \<in> set tpts. \<forall>w w'. fst (sec_call h c w) = fst (sec_call h c w') \<Longrightarrow>
   fst (sec_add_loop h tpts acc w1) = fst (sec_add_loop h tpts acc w2)"
proof (induction tpts arbitrary: acc w1 w2)
  case Nil
  show ?case by simp
next
  case (Cons c rest)
  obtain secC i where c: "c = MsSecC secC i" by (cases c)
  obtain r1 v1 where f1: "secC h w1 = (r1, v1)" by (cases "secC h w1")
  obtain r2 v2 where f2: "secC h w2 = (r2, v2)" by (cases "secC h w2")
  from Cons.prems c have "fst (secC h w1) = fst (secC h w2)" by simp
  with f1 f2 have r: "r1 = r2" by simp
  from Cons.prems have
    "\<forall>c \<in> set rest. \<forall>w w'. fst (sec_call h c w) = fst (sec_call h c w')" by simp
  note IH = Cons.IH[OF this]
  show ?case
  proof (cases r2)
    case (Ok t)
    with c f1 f2 r IH show ?thesis by (cases t) simp_all
  qed (use c f1 f2 r in simp_all)
qed

lemma makeSecurityTransport_keys:
  assumes "makeSecurityTransport h secs w = (Ok d, w')"
  shows "sec_keys d = (if secs = [] then {secio_ID} else set (map sec_id secs))"
proof (cases "secs = []")
  case True
  with assms show ?thesis by (auto simp: makeSecurityTransport_def AddTransport_def)
next
  case False
  with assms have "sec_add_loop h secs [] w = (Ok d, w')"
    by (simp add: makeSecurityTransport_def sec_duplicate_loop_empty)
  from sec_add_loop_no_insecure[OF this] obtain m where
    "d = SSMuxer m" "map fst m = map sec_id secs" by auto
  then have "sec_keys d = set (map sec_id secs)" by (metis sec_keys.simps(1) set_map)
  with False show ?thesis by simp
qed

lemma makeTransports_length:
  assumes "makeTransports h u tpts w = (Ok ts, w')"
  shows "length ts = (if tpts = [] then 2 else length tpts)"
proof (cases "tpts = []")
  case True
  with assms show ?thesis by (auto simp: makeTransports_def)
next
  case False
  with assms have "makeTransports_loop h u tpts [] w = (Ok ts, w')"
    by (simp add: makeTransports_def)
  from makeTransports_loop_length[OF this] False show ?thesis by simp
qed

section \<open>Duplicate protocol identifiers\<close>

text \<open>
  Claim C1: a keyed list holding two entries with the same protocol identifier is refused
  by the secure-channel aggregator and by the multiplexer aggregator with a duplicate
  error naming the identifier, before any factory of the list is invoked.

  The code does not refuse it.  \<^verbatim>\<open>makeSecurityTransport\<close> looks identifiers up in a map
  it never stores into (\<open>sec_duplicate_loop_empty\<close>): with two factories registered under
  \<^verbatim>\<open>/x\<close>, each counting its invocation, both run (the counter ends at 2) and both are
  installed.  \<^verbatim>\<open>makeMuxer\<close> reaches its check for an empty list only; given the same kind
  of list it returns its two defaults with no error.
\<close>

theorem duplicate_identifiers_accepted:
  "makeSecurityTransport h
     [MsSecC (\<lambda>_ n. (Ok (OtherSec ''a''), Suc n)) ''/x'',
      MsSecC (\<lambda>_ n. (Ok (OtherSec ''b''), Suc n)) ''/x''] (0::nat)
     = (Ok (SSMuxer [(''/x'', OtherSec ''a''), (''/x'', OtherSec ''b'')]), 2)
   \<and> makeMuxer h
     [MsMuxC (\<lambda>_ n. (Ok (OtherMux ''a''), Suc n)) ''/x'',
      MsMuxC (\<lambda>_ n. (Ok (OtherMux ''b''), Suc n)) ''/x''] (0::nat)
     = (Ok (MsMuxTransport
         [(''/yamux/1.0.0'', YamuxDefaultTransport), (''/mplex/6.3.0'', MplexDefaultTransport)]), 0)"
  by (simp add: makeSecurityTransport_def makeMuxer_def AddTransport_def)

section \<open>Defaults for an empty list\<close>

text \<open>
  Claim C2: for an empty list every aggregator installs its built-in defaults and nothing
  else: TCP then WebSocket, one secio component bound to the host's identifier and private
  key, and the two multiplexers under \<^verbatim>\<open>/yamux/1.0.0\<close> and \<^verbatim>\<open>/mplex/6.3.0\<close>.

  \<^verbatim>\<open>makeTransports\<close> and \<^verbatim>\<open>makeSecurityTransport\<close> do so.  \<^verbatim>\<open>makeMuxer\<close> tests
  \<^verbatim>\<open>len(tpts) == 0\<close> where its siblings test \<^verbatim>\<open>len(tpts) > 0\<close>: for the empty list it
  runs its two loops over nothing and returns a dispatcher with no entry.
\<close>

theorem empty_list_defaults:
  "makeTransports h u [] w = (Ok [TCPTransport u, WSTransport u], w)
   \<and> makeSecurityTransport h [] w
       = (Ok (SSMuxer [(secio_ID, SecioTransport (ID h) (PrivKey (Peerstore h) (ID h)))]), w)
   \<and> makeMuxer h [] w = (Ok (MsMuxTransport []), w)
   \<and> mux_keys (MsMuxTransport []) = {}"
  by (simp add: makeTransports_def makeSecurityTransport_def makeMuxer_def AddTransport_def)

section \<open>Aggregating a non-empty list\<close>

text \<open>
  Claim C3 as stated: for a non-empty list of factories each of the three aggregators
  succeeds, invokes every factory once in input order against the host context and
  includes every result; a factory's error aborts the aggregation at that first failure.

  As stated it fails in two places.  \<^verbatim>\<open>makeSecurityTransport\<close> refuses a factory that
  returns the raw insecure transport although no factory returned an error, and calls no
  later factory (the counter stays at 1).  \<^verbatim>\<open>makeMuxer\<close> calls no factory of a non-empty
  list at all (the counter stays at 0) and returns its two defaults instead of the
  factory's result.
\<close>

theorem aggregation_counterexample:
  "makeSecurityTransport example_host
     [MsSecC (\<lambda>_ n. (Ok (InsecureTransport ''QmA''), Suc n)) ''/plaintext/1.0.0'',
      MsSecC (\<lambda>_ n. (Ok (OtherSec ''tls''), Suc n)) ''/tls/1.0.0''] (0::nat)
     = (Err insecure_error, 1)
   \<and> makeMuxer example_host [MsMuxC (\<lambda>_ n. (Ok (OtherMux ''m''), Suc n)) ''/m/1.0.0''] (0::nat)
     = (Ok (MsMuxTransport
         [(''/yamux/1.0.0'', YamuxDefaultTransport), (''/mplex/6.3.0'', MplexDefaultTransport)]), 0)"
  by (simp add: makeSecurityTransport_def makeMuxer_def AddTransport_def)

text \<open>
  Claim C3 as amended, for \<^verbatim>\<open>makeTransports\<close> and \<^verbatim>\<open>makeSecurityTransport\<close>: given a
  non-empty list, when every factory, called once in input order on the host context,
  returns a component (and, for the secure-channel aggregator, none of these is the raw
  insecure transport), the aggregator returns exactly these components in input order (the
  secure-channel aggregator under the identifiers of their entries), and the world is the
  one left by calling every factory once in order.  When the factories before some entry
  return such components and that entry's factory returns an error, the aggregator returns
  that error and no component, and the world is the one that factory left: no later
  factory is called.
\<close>

theorem aggregation_in_input_order:
  "(tpts \<noteq> [] \<and> fst (calls (map (tpt_call h u) tpts) w) = map Ok ts \<longrightarrow>
      makeTransports h u tpts w = (Ok ts, snd (calls (map (tpt_call h u) tpts) w)))
   \<and> (fst (calls (map (tpt_call h u) pre) w) = map Ok ts
        \<and> fst (tpt_call h u tC (snd (calls (map (tpt_call h u) pre) w))) = Err e \<longrightarrow>
      makeTransports h u (pre @ tC # post) w
        = (Err e, snd (tpt_call h u tC (snd (calls (map (tpt_call h u) pre) w)))))
   \<and> (secs \<noteq> [] \<and> fst (calls (map (sec_call h) secs) v) = map Ok ss
        \<and> (\<forall>t \<in> set ss. \<not> is_insecure t) \<longrightarrow>
      makeSecurityTransport h secs v
        = (Ok (SSMuxer (zip (map sec_id secs) ss)), snd (calls (map (sec_call h) secs) v)))
   \<and> (fst (calls (map (sec_call h) spre) v) = map Ok ss
        \<and> (\<forall>t \<in> set ss. \<not> is_insecure t)
        \<and> fst (sec_call h c (snd (calls (map (sec_call h) spre) v))) = Err e' \<longrightarrow>
      makeSecurityTransport h (spre @ c # spost) v
        = (Err e', snd (sec_call h c (snd (calls (map (sec_call h) spre) v)))))"
proof (intro conjI impI)
  assume "tpts \<noteq> [] \<and> fst (calls (map (tpt_call h u) tpts) w) = map Ok ts"
  then show "makeTransports h u tpts w = (Ok ts, snd (calls (map (tpt_call h u) tpts) w))"
    using makeTransports_loop_all_ok[of h u tpts w ts "[]"] by (simp add: makeTransports_def)
next
  assume "fst (calls (map (tpt_call h u) pre) w) = map Ok ts
        \<and> fst (tpt_call h u tC (snd (calls (map (tpt_call h u) pre) w))) = Err e"
  then show "makeTransports h u (pre @ tC # post) w
        = (Err e, snd (tpt_call h u tC (snd (calls (map (tpt_call h u) pre) w))))"
    using makeTransports_loop_first_error[of h u pre w ts tC e post "[]"]
    by (simp add: makeTransports_def)
next
  assume "secs \<noteq> [] \<and> fst (calls (map (sec_call h) secs) v) = map Ok ss
        \<and> (\<forall>t \<in> set ss. \<not> is_insecure t)"
  then show "makeSecurityTransport h secs v
        = (Ok (SSMuxer (zip (map sec_id secs) ss)), snd (calls (map (sec_call h) secs) v))"
    using sec_add_loop_all_ok[of h secs v ss "[]"]
    by (simp add: makeSecurityTransport_def sec_duplicate_loop_empty)
next
  assume "fst (calls (map (sec_call h) spre) v) = map Ok ss
        \<and> (\<forall>t \<in> set ss. \<not> is_insecure t)
        \<and> fst (sec_call h c (snd (calls (map (sec_call h) spre) v))) = Err e'"
  then show "makeSecurityTransport h (spre @ c # spost) v
        = (Err e', snd (sec_call h c (snd (calls (map (sec_call h) spre) v))))"
    using sec_add_loop_first_error[of h spre v ss c e' spost "[]"]
    by (simp add: makeSecurityTransport_def sec_duplicate_loop_empty)
qed

theorem aggregation_in_input_order_witness:
  "makeTransports example_host example_upgrader
       [\<lambda>_ _ n. (Ok (OtherTransport ''a''), Suc n), \<lambda>_ _ n. (Ok (OtherTransport ''b''), 10 * n)] (0::nat)
       = (Ok [OtherTransport ''a'', OtherTransport ''b''], 10)
   \<and> makeTransports example_host example_upgrader
       ([\<lambda>_ _ n. (Ok (OtherTransport ''a''), Suc n)] @ (\<lambda>_ _ n. (Err ''boom'', 10 * n))
          # [\<lambda>_ _ n. (Ok (OtherTransport ''c''), n + 5)]) (0::nat)
       = (Err ''boom'', 10)
   \<and> makeSecurityTransport example_host
       [MsSecC (\<lambda>_ n. (Ok (OtherSec ''a''), Suc n)) ''/a'', MsSecC (\<lambda>_ n. (Ok (OtherSec ''b''), 10 * n)) ''/b'']
       (0::nat)
       = (Ok (SSMuxer [(''/a'', OtherSec ''a''), (''/b'', OtherSec ''b'')]), 10)
   \<and> makeSecurityTransport example_host
       ([MsSecC (\<lambda>_ n. (Ok (OtherSec ''a''), Suc n)) ''/a''] @ MsSecC (\<lambda>_ n. (Err ''boom'', 10 * n)) ''/b''
          # [MsSecC (\<lambda>_ n. (Ok (OtherSec ''c''), n + 5)) ''/c'']) (0::nat)
       = (Err ''boom'', 10)"
proof -
  show "makeTransports example_host example_upgrader
       [\<lambda>_ _ n. (Ok (OtherTransport ''a''), Suc n), \<lambda>_ _ n. (Ok (OtherTransport ''b''), 10 * n)] (0::nat)
       = (Ok [OtherTransport ''a'', OtherTransport ''b''], 10)
   \<and> makeTransports example_host example_upgrader
       ([\<lambda>_ _ n. (Ok (OtherTransport ''a''), Suc n)] @ (\<lambda>_ _ n. (Err ''boom'', 10 * n))
          # [\<lambda>_ _ n. (Ok (OtherTransport ''c''), n + 5)]) (0::nat)
       = (Err ''boom'', 10)
   \<and> makeSecurityTransport example_host
       [MsSecC (\<lambda>_ n. (Ok (OtherSec ''a''), Suc n)) ''/a'', MsSecC (\<lambda>_ n. (Ok (OtherSec ''b''), 10 * n)) ''/b'']
       (0::nat)
       = (Ok (SSMuxer [(''/a'', OtherSec ''a''), (''/b'', OtherSec ''b'')]), 10)
   \<and> makeSecurityTransport example_host
       ([MsSecC (\<lambda>_ n. (Ok (OtherSec ''a''), Suc n)) ''/a''] @ MsSecC (\<lambda>_ n. (Err ''boom'', 10 * n)) ''/b''
          # [MsSecC (\<lambda>_ n. (Ok (OtherSec ''c''), n + 5)) ''/c'']) (0::nat)
       = (Err ''boom'', 10)"
    using aggregation_in_input_order
      [where tpts = "[\<lambda>_ _ n. (Ok (OtherTransport ''a''), Suc n), \<lambda>_ _ n. (Ok (OtherTransport ''b''), 10 * n)]"
         and h = example_host and u = example_upgrader and w = "0::nat"
         and ts = "[OtherTransport ''a'', OtherTransport ''b'']"
         and secs = "[MsSecC (\<lambda>_ n. (Ok (OtherSec ''a''), Suc n)) ''/a'', MsSecC (\<lambda>_ n. (Ok (OtherSec ''b''), 10 * n)) ''/b'']"
         and v = "0::nat" and ss = "[OtherSec ''a'', OtherSec ''b'']"]
      aggregation_in_input_order
      [where pre = "[\<lambda>_ _ n. (Ok (OtherTransport ''a''), Suc n)]"
         and h = example_host and u = example_upgrader and w = "0::nat" and ts = "[OtherTransport ''a'']"
         and tC = "\<lambda>_ _ n. (Err ''boom'', 10 * n)" and e = "''boom''"
         and post = "[\<lambda>_ _ n. (Ok (OtherTransport ''c''), n + 5)]"
         and spre = "[MsSecC (\<lambda>_ n. (Ok (OtherSec ''a''), Suc n)) ''/a'']"
         and v = "0::nat" and ss = "[OtherSec ''a'']"
         and c = "MsSecC (\<lambda>_ n. (Err ''boom'', 10 * n)) ''/b''" and e' = "''boom''"
         and spost = "[MsSecC (\<lambda>_ n. (Ok (OtherSec ''c''), n + 5)) ''/c'']"]
    by (simp add: tpt_call_def)
qed

section \<open>The insecure transport\<close>

text \<open>
  Claim C8: when a factory of the list given to the secure-channel aggregator resolves to
  the no-security component, resolution fails with the error that forbids it, and no
  dispatcher returned to the caller holds that component.

  A factory's component is resolved when the factory is called, which the loop does once
  every earlier factory has returned a component that was installed.  So: when the entries
  before \<open>c\<close> return components that are not the insecure transport and \<open>c\<close> returns
  the insecure transport, \<^verbatim>\<open>makeSecurityTransport\<close> returns the forbidding error, in the
  world \<open>c\<close> left.  And whatever the list, a dispatcher that is returned holds no insecure
  transport.
\<close>

theorem insecure_transport_forbidden:
  "(fst (calls (map (sec_call h) pre) w) = map Ok ts
      \<and> (\<forall>t \<in> set ts. \<not> is_insecure t)
      \<and> fst (sec_call h c (snd (calls (map (sec_call h) pre) w))) = Ok (InsecureTransport p) \<longrightarrow>
    makeSecurityTransport h (pre @ c # post) w
      = (Err insecure_error, snd (sec_call h c (snd (calls (map (sec_call h) pre) w)))))
   \<and> (makeSecurityTransport h tpts v = (Ok d, v') \<longrightarrow>
        (\<exists>m. d = SSMuxer m \<and> (\<forall>t \<in> snd ` set m. \<not> is_insecure t)))"
proof (intro conjI impI)
  assume "fst (calls (map (sec_call h) pre) w) = map Ok ts
      \<and> (\<forall>t \<in> set ts. \<not> is_insecure t)
      \<and> fst (sec_call h c (snd (calls (map (sec_call h) pre) w))) = Ok (InsecureTransport p)"
  then show "makeSecurityTransport h (pre @ c # post) w
      = (Err insecure_error, snd (sec_call h c (snd (calls (map (sec_call h) pre) w))))"
    using sec_add_loop_insecure[of h pre w ts c p post "[]"]
    by (simp add: makeSecurityTransport_def sec_duplicate_loop_empty)
next
  assume ok: "makeSecurityTransport h tpts v = (Ok d, v')"
  show "\<exists>m. d = SSMuxer m \<and> (\<forall>t \<in> snd ` set m. \<not> is_insecure t)"
  proof (cases "tpts = []")
    case True
    with ok show ?thesis by (auto simp: makeSecurityTransport_def AddTransport_def)
  next
    case False
    with ok have "sec_add_loop h tpts [] v = (Ok d, v')"
      by (simp add: makeSecurityTransport_def sec_duplicate_loop_empty)
    from sec_add_loop_no_insecure[OF this] show ?thesis by auto
  qed
qed

theorem insecure_transport_forbidden_witness:
  "makeSecurityTransport example_host
       ([MsSecC (\<lambda>_ n. (Ok (OtherSec ''tls''), Suc n)) ''/tls/1.0.0'']
          @ MsSecC (\<lambda>_ n. (Ok (InsecureTransport ''QmA''), 10 * n)) ''/plaintext/1.0.0''
          # [MsSecC (\<lambda>_ n. (Ok (OtherSec ''noise''), n + 5)) ''/noise'']) (0::nat)
       = (Err insecure_error, 10)
   \<and> (\<exists>m. SSMuxer [(''/tls/1.0.0'', OtherSec ''tls'')] = SSMuxer m
            \<and> (\<forall>t \<in> snd ` set m. \<not> is_insecure t))"
proof -
  have run: "makeSecurityTransport example_host [MsSecC (\<lambda>_ n. (Ok (OtherSec ''tls''), Suc n)) ''/tls/1.0.0''] (0::nat)
      = (Ok (SSMuxer [(''/tls/1.0.0'', OtherSec ''tls'')]), 1)"
    by (simp add: makeSecurityTransport_def AddTransport_def)
  show "makeSecurityTransport example_host
       ([MsSecC (\<lambda>_ n. (Ok (OtherSec ''tls''), Suc n)) ''/tls/1.0.0'']
          @ MsSecC (\<lambda>_ n. (Ok (InsecureTransport ''QmA''), 10 * n)) ''/plaintext/1.0.0''
          # [MsSecC (\<lambda>_ n. (Ok (OtherSec ''noise''), n + 5)) ''/noise'']) (0::nat)
       = (Err insecure_error, 10)
   \<and> (\<exists>m. SSMuxer [(''/tls/1.0.0'', OtherSec ''tls'')] = SSMuxer m
            \<and> (\<forall>t \<in> snd ` set m. \<not> is_insecure t))"
    using insecure_transport_forbidden
      [where h = example_host and pre = "[MsSecC (\<lambda>_ n. (Ok (OtherSec ''tls''), Suc n)) ''/tls/1.0.0'']"
         and w = "0::nat" and ts = "[OtherSec ''tls'']"
         and c = "MsSecC (\<lambda>_ n. (Ok (InsecureTransport ''QmA''), 10 * n)) ''/plaintext/1.0.0''"
         and p = "''QmA''"
         and post = "[MsSecC (\<lambda>_ n. (Ok (OtherSec ''noise''), n + 5)) ''/noise'']"
         and tpts = "[MsSecC (\<lambda>_ n. (Ok (OtherSec ''tls''), Suc n)) ''/tls/1.0.0'']"
         and v = "0::nat" and d = "SSMuxer [(''/tls/1.0.0'', OtherSec ''tls'')]" and v' = "1::nat"]
      run
    by simp
qed

text \<open>
  Claim C10: the check tests the concrete type of the resolved component only.  A
  component that wraps the insecure transport passes it and is installed; such is the
  dispatcher that \<^verbatim>\<open>makeInsecureTransport\<close> builds.
\<close>

theorem forbidden_check_is_by_concrete_type:
  "makeSecurityTransport h [MsSecC (\<lambda>_ w. (Ok t, w)) i] w
     = (if is_insecure t then (Err insecure_error, w) else (Ok (SSMuxer [(i, t)]), w))
   \<and> makeInsecureTransport p = SSMuxer [(insecure_ID, InsecureTransport p)]
   \<and> makeSecurityTransport h [MsSecC (\<lambda>_ w. (Ok (makeInsecureTransport p), w)) i] w
     = (Ok (SSMuxer [(i, SSMuxer [(insecure_ID, InsecureTransport p)])]), w)"
  by (cases t) (simp_all add: makeSecurityTransport_def makeInsecureTransport_def AddTransport_def)

section \<open>Resolving twice\<close>

text \<open>
  Claim C9: resolving the same list twice against the same host context yields equivalent
  results: dispatchers with the same key set and, for transports, lists of the same
  length.

  Whatever the factories do to the world, two runs of \<^verbatim>\<open>makeSecurityTransport\<close> that
  both return a dispatcher return the same key set, two runs of \<^verbatim>\<open>makeTransports\<close> that
  both return a list return lists of the same length, and two runs of \<^verbatim>\<open>makeMuxer\<close>
  return the same result.  When moreover every factory is stateless, as the data model
  requires of a deferred factory (its result does not depend on the world it is called
  in), two runs return the same result, error or not.
\<close>

theorem resolution_repeatable:
  "(makeSecurityTransport h secs wa = (Ok da, va) \<and> makeSecurityTransport h secs wb = (Ok db, vb) \<longrightarrow>
      sec_keys da = sec_keys db)
   \<and> (makeTransports h u tpts wa = (Ok tsa, va) \<and> makeTransports h u tpts wb = (Ok tsb, vb) \<longrightarrow>
      length tsa = length tsb)
   \<and> fst (makeMuxer h muxs wa) = fst (makeMuxer h muxs wb)
   \<and> ((\<forall>c \<in> set secs. \<forall>w w'. fst (sec_call h c w) = fst (sec_call h c w')) \<longrightarrow>
      fst (makeSecurityTransport h secs wa) = fst (makeSecurityTransport h secs wb))
   \<and> ((\<forall>tC \<in> set tpts. \<forall>w w'. fst (tpt_call h u tC w) = fst (tpt_call h u tC w')) \<longrightarrow>
      fst (makeTransports h u tpts wa) = fst (makeTransports h u tpts wb))"
proof (intro conjI impI)
  assume "makeSecurityTransport h secs wa = (Ok da, va) \<and> makeSecurityTransport h secs wb = (Ok db, vb)"
  then show "sec_keys da = sec_keys db"
    using makeSecurityTransport_keys[of h secs wa da va] makeSecurityTransport_keys[of h secs wb db vb]
    by simp
next
  assume "makeTransports h u tpts wa = (Ok tsa, va) \<and> makeTransports h u tpts wb = (Ok tsb, vb)"
  then show "length tsa = length tsb"
    using makeTransports_length[of h u tpts wa tsa va] makeTransports_length[of h u tpts wb tsb vb]
    by simp
next
  show "fst (makeMuxer h muxs wa) = fst (makeMuxer h muxs wb)"
    by (simp add: makeMuxer_any)
next
  assume "\<forall>c \<in> set secs. \<forall>w w'. fst (sec_call h c w) = fst (sec_call h c w')"
  from sec_add_loop_stateless[OF this, of "[]" wa wb]
  show "fst (makeSecurityTransport h secs wa) = fst (makeSecurityTransport h secs wb)"
    by (simp add: makeSecurityTransport_def sec_duplicate_loop_empty)
next
  assume "\<forall>tC \<in> set tpts. \<forall>w w'. fst (tpt_call h u tC w) = fst (tpt_call h u tC w')"
  from makeTransports_loop_stateless[OF this, of "[]" wa wb]
  show "fst (makeTransports h u tpts wa) = fst (makeTransports h u tpts wb)"
    by (simp add: makeTransports_def)
qed

theorem resolution_repeatable_witness:
  "sec_keys (SSMuxer [(''/a'', OtherSec ''run 0'')]) = sec_keys (SSMuxer [(''/a'', OtherSec ''later run'')])
   \<and> length [OtherTransport ''run 0''] = length [OtherTransport ''later run'']
   \<and> fst (makeSecurityTransport example_host [MsSecC (\<lambda>_ n. (Ok (OtherSec ''a''), Suc n)) ''/a''] (0::nat))
       = fst (makeSecurityTransport example_host [MsSecC (\<lambda>_ n. (Ok (OtherSec ''a''), Suc n)) ''/a''] 1)
   \<and> fst (makeTransports example_host example_upgrader [\<lambda>_ _ n. (Ok (OtherTransport ''a''), Suc n)] (0::nat))
       = fst (makeTransports example_host example_upgrader [\<lambda>_ _ n. (Ok (OtherTransport ''a''), Suc n)] 1)"
proof -
  let ?secs = "[MsSecC (\<lambda>_ n. (Ok (OtherSec (if n = 0 then ''run 0'' else ''later run'')), Suc n)) ''/a'']"
  let ?tpts = "[\<lambda>_ _ n. (Ok (OtherTransport (if n = 0 then ''run 0'' else ''later run'')), Suc n)]"
  have s0: "makeSecurityTransport example_host ?secs (0::nat) = (Ok (SSMuxer [(''/a'', OtherSec ''run 0'')]), 1)"
    by (simp add: makeSecurityTransport_def AddTransport_def)
  have s1: "makeSecurityTransport example_host ?secs (1::nat) = (Ok (SSMuxer [(''/a'', OtherSec ''later run'')]), 2)"
    by (simp add: makeSecurityTransport_def AddTransport_def)
  have t0: "makeTransports example_host example_upgrader ?tpts (0::nat) = (Ok [OtherTransport ''run 0''], 1)"
    by (simp add: makeTransports_def)
  have t1: "makeTransports example_host example_upgrader ?tpts (1::nat) = (Ok [OtherTransport ''later run''], 2)"
    by (simp add: makeTransports_def)
  have a: "sec_keys (SSMuxer [(''/a'', OtherSec ''run 0'')]) = sec_keys (SSMuxer [(''/a'', OtherSec ''later run'')])
     \<and> length [OtherTransport ''run 0''] = length [OtherTransport ''later run'']"
    using resolution_repeatable
      [where h = example_host and u = example_upgrader and secs = ?secs and tpts = ?tpts and wa = "0::nat" and wb = "1::nat"
         and da = "SSMuxer [(''/a'', OtherSec ''run 0'')]" and va = "1::nat"
         and db = "SSMuxer [(''/a'', OtherSec ''later run'')]" and vb = "2::nat"
         and tsa = "[OtherTransport ''run 0'']" and tsb = "[OtherTransport ''later run'']"]
      s0 s1 t0 t1
    by blast
  have b: "fst (makeSecurityTransport example_host [MsSecC (\<lambda>_ n. (Ok (OtherSec ''a''), Suc n)) ''/a''] (0::nat))
       = fst (makeSecurityTransport example_host [MsSecC (\<lambda>_ n. (Ok (OtherSec ''a''), Suc n)) ''/a''] 1)
   \<and> fst (makeTransports example_host example_upgrader [\<lambda>_ _ n. (Ok (OtherTransport ''a''), Suc n)] (0::nat))
       = fst (makeTransports example_host example_upgrader [\<lambda>_ _ n. (Ok (OtherTransport ''a''), Suc n)] 1)"
    using resolution_repeatable
      [where h = example_host and u = example_upgrader
         and secs = "[MsSecC (\<lambda>_ n. (Ok (OtherSec ''a''), Suc n)) ''/a'']"
         and tpts = "[\<lambda>_ _ n. (Ok (OtherTransport ''a''), Suc n)]"
         and wa = "0::nat" and wb = "1::nat"]
    by (simp add: tpt_call_def)
  from a b show "sec_keys (SSMuxer [(''/a'', OtherSec ''run 0'')]) = sec_keys (SSMuxer [(''/a'', OtherSec ''later run'')])
   \<and> length [OtherTransport ''run 0''] = length [OtherTransport ''later run'']
   \<and> fst (makeSecurityTransport example_host [MsSecC (\<lambda>_ n. (Ok (OtherSec ''a''), Suc n)) ''/a''] (0::nat))
       = fst (makeSecurityTransport example_host [MsSecC (\<lambda>_ n. (Ok (OtherSec ''a''), Suc n)) ''/a''] 1)
   \<and> fst (makeTransports example_host example_upgrader [\<lambda>_ _ n. (Ok (OtherTransport ''a''), Suc n)] (0::nat))
       = fst (makeTransports example_host example_upgrader [\<lambda>_ _ n. (Ok (OtherTransport ''a''), Suc n)] 1)"
    by blast
qed

section \<open>The constructors' behaviour\<close>

lemma named_outs:
  "transportType named_types = Some (Interface ''transport.Transport'')"
  "errorType named_types = Some (Interface ''error'')"
  by (simp_all add: named_types_def)

lemma source_outs:
  "transportType source_types = None"
  "errorType source_types = None"
  by (simp_all add: source_types_def)

text \<open>
  The switch on the result types, under each of the two tables: with the named types it
  accepts one result, or one result and an \<^verbatim>\<open>error\<close>, when the first is
  \<^verbatim>\<open>transport.Transport\<close> or implements it; with the types as \<^verbatim>\<open>reflect.TypeOf\<close>
  computes them it accepts nothing.
\<close>

lemma NumOut_switch_named:
  "NumOut_switch impl named_types outs = Ok () \<longleftrightarrow>
     (outs = [outs ! 0] \<or> outs = [outs ! 0, Interface ''error''])
     \<and> (outs ! 0 = Interface ''transport.Transport''
          \<or> impl (outs ! 0) (Interface ''transport.Transport''))"
proof (cases outs)
  case Nil
  then show ?thesis by (simp add: NumOut_switch_def)
next
  case (Cons a rest)
  note outer = this
  show ?thesis
  proof (cases rest)
    case Nil
    with outer show ?thesis
      by (auto simp: NumOut_switch_def first_out_check_def Implements_def named_outs
          split: bool.splits)
  next
    case (Cons b rest')
    with outer show ?thesis
      by (cases rest')
        (auto simp: NumOut_switch_def first_out_check_def Implements_def named_outs
          split: bool.splits)
  qed
qed

lemma NumOut_switch_source:
  "NumOut_switch impl source_types outs \<noteq> Ok ()"
  by (simp add: NumOut_switch_def first_out_check_def Implements_def source_outs)

lemma palette_transport_host:
  "palette_loop self_only (transportArgTypes named_types) (Interface ''host.Host'')
     = Some (Some (\<lambda>(h, u). VHost h))"
  by (simp add: transportArgTypes_def named_types_def Implements_def self_only_def)

lemma palette_security_host:
  "palette_loop impl (securityArgTypes named_types) (Interface ''host.Host'')
     = Some (Some VHost)"
  by (simp add: securityArgTypes_def named_types_def Implements_def)

lemma resolve_arguments_first_only:
  "resolve_arguments impl palette ins =
     (case ins of
        [] \<Rightarrow> Ok []
      | argType # rest \<Rightarrow>
          (case palette_loop impl palette argType of
             None \<Rightarrow> Panic
           | Some None \<Rightarrow>
               Err (''argument 0 of transport constructor has an unexpected type '' @ Name argType)
           | Some (Some New) \<Rightarrow> Ok (Some New # replicate (length rest) None)))"
  by (simp add: resolve_arguments_def outer_loop_def fmt_d.simps split: list.splits option.splits)

lemma make_arguments_complete:
  "make_arguments (map Some makeArgs) x = Some (map (\<lambda>makeArg. makeArg x) makeArgs)"
  by (induction makeArgs) simp_all

lemma closure_complete:
  "closure assert (map Some makeArgs) v x w =
     (case v (map (\<lambda>makeArg. makeArg x) makeArgs) w of
        (out, w') \<Rightarrow> (read_out assert out, w'))"
  by (simp add: closure_def make_arguments_complete)

lemma read_out_cases:
  "read_out as_transport [VTransport t] = Ok t"
  "read_out as_transport [VTransport t, VNil] = Ok t"
  "read_out as_transport [x, VError err] = Err err"
  by (simp_all add: read_out_def first_out_def)

lemma first_parameter_unresolved:
  "resolve_arguments self_only (securityArgTypes named_types) [Interface ''io.Writer'', Interface ''host.Host'']
     = Err ''argument 0 of transport constructor has an unexpected type io.Writer''"
  by (simp add: resolve_arguments_first_only securityArgTypes_def named_types_def Implements_def
      self_only_def)

text \<open>
  Claim C7: a descriptor that already is a component of the constructor's kind is accepted
  by each constructor, and the deferred factory returns that component and no error for
  every host context, leaving the world as it was.
\<close>

theorem instances_pass_through:
  "(\<exists>d. TransportConstructor impl rt (Value (VTransport t)) = Ok d
        \<and> (\<forall>h u w. d h u w = (Ok t, w)))
   \<and> (\<exists>d. SecurityConstructor impl rt (Value (VSec s)) = Ok d
        \<and> (\<forall>h w. d h w = (Ok s, w)))
   \<and> (\<exists>d. MuxerConstructor impl rt (Value (VMux m)) = Ok d
        \<and> (\<forall>h w. d h w = (Ok m, w)))"
  by (simp add: TransportConstructor_def SecurityConstructor_def MuxerConstructor_def)

text \<open>
  Claim C4: when every declared parameter is satisfied by a palette entry, resolution
  yields one extraction function per parameter, in the order of the parameters; when some
  parameter is satisfied by no entry, normalization fails with an error naming that
  parameter's position.

  The code examines the first parameter only (\<open>resolve_arguments_first_only\<close>): after
  storing the first constructor it leaves the loop with \<^verbatim>\<open>break outer\<close>.  For the
  parameters \<^verbatim>\<open>(host.Host, io.Writer)\<close> there is no error although no palette entry is
  an \<^verbatim>\<open>io.Writer\<close>, and \<^verbatim>\<open>TransportConstructor\<close> accepts the function; for
  \<^verbatim>\<open>(host.Host, inet.Network)\<close>, both satisfiable, the second slot stays nil.  With the
  descriptors as \<^verbatim>\<open>reflect.TypeOf\<close> computes them the constructor does not get that
  far: it panics in \<^verbatim>\<open>Implements\<close> on the nil \<^verbatim>\<open>transportType\<close>.
\<close>

theorem later_parameters_unresolved:
  "resolve_arguments impl (securityArgTypes named_types)
       [Interface ''host.Host'', Interface ''io.Writer'']
     = Ok [Some VHost, None]
   \<and> resolve_arguments impl (securityArgTypes named_types)
       [Interface ''host.Host'', Interface ''inet.Network'']
     = Ok [Some VHost, None]
   \<and> (\<exists>d. TransportConstructor self_only named_types
          (Func [Interface ''host.Host'', Interface ''io.Writer''] [Interface ''transport.Transport''] v)
        = Ok d)
   \<and> TransportConstructor impl source_types
        (Func [Interface ''host.Host'', Interface ''io.Writer''] [Interface ''transport.Transport''] v)
      = Panic"
  by (simp add: resolve_arguments_def outer_loop_def palette_security_host palette_transport_host
      TransportConstructor_def NumOut_switch_def first_out_check_def Implements_def
      named_outs source_outs)

text \<open>
  Claim C5: each constructor accepts a function exactly when it returns a value of the
  constructor's own component kind, alone or followed by an error, and refuses every other
  result shape with an error.

  \<^verbatim>\<open>SecurityConstructor\<close> and \<^verbatim>\<open>MuxerConstructor\<close> compare the first result with
  \<^verbatim>\<open>transportType\<close>, not with \<^verbatim>\<open>securityType\<close> and \<^verbatim>\<open>muxType\<close>: a function returning
  a \<^verbatim>\<open>mux.Transport\<close>, and one returning a \<^verbatim>\<open>security.Transport\<close> and an error, are
  refused.  With the descriptors as \<^verbatim>\<open>reflect.TypeOf\<close> computes them, a function with
  one result makes every constructor panic, and a function with two results is refused
  for its second result although that is an \<^verbatim>\<open>error\<close>.
\<close>

theorem result_shape_checked_against_transportType:
  "MuxerConstructor self_only named_types (Func [] [Interface ''mux.Transport''] v)
     = Err ''expected first return value from transport constructor to be a transport''
   \<and> SecurityConstructor self_only named_types
        (Func [] [Interface ''security.Transport'', Interface ''error''] v)
     = Err ''expected first return value from transport constructor to be a transport''
   \<and> MuxerConstructor impl source_types (Func [] [Interface ''mux.Transport''] v) = Panic
   \<and> SecurityConstructor impl source_types
        (Func [] [Interface ''security.Transport'', Interface ''error''] v)
     = Err ''expected (optional) second return value from transport constructor to be an error''
   \<and> TransportConstructor impl source_types (Func [] [Interface ''transport.Transport''] v) = Panic"
  by (simp add: MuxerConstructor_def SecurityConstructor_def TransportConstructor_def
      NumOut_switch_def first_out_check_def Implements_def
      named_outs source_outs self_only_def)


end
